theory Spec2Isabelle
  imports Main
begin

section \<open>Data model\<close>

text \<open>
  The engine is the class \<open>ChessGame\<close>. A square is a \<open>Position\<close> with integer
  \<open>row\<close> and \<open>col\<close>; the board is a \<open>string[][]\<close> whose cells are one-letter
  strings (\<open>"."\<close> for an empty square, upper case for white, lower case for black).
  Strings are modelled as lists of 8-bit characters.
\<close>

record Position =
  row :: int
  col :: int

text \<open>
  The interface \<open>Move\<close>. The fields carry the prefix \<open>mv_\<close>
  (\<open>from\<close> is a keyword). \<open>captured\<close> and \<open>castling\<close> are optional in the source
  (\<open>None\<close> is \<open>undefined\<close>). \<open>castlingRightsBefore\<close> is a \<open>Set\<close> object: the model
  keeps the reference (an index into the heap of the game state) and stores the
  set in the heap, because \<open>undo\<close> assigns this very object to
  \<open>this.castlingRights\<close> and \<open>redo\<close> and \<open>move\<close> then delete from it in place.
  A \<open>Set<string>\<close> is modelled as the list of its elements in insertion order.
\<close>

record Move =
  mv_from :: Position
  mv_to :: Position
  mv_piece :: string
  mv_captured :: "string option"
  mv_castlingRightsBefore :: nat
  mv_castling :: "bool option"

datatype Color = White | Black

datatype KingColor = W | B

record ChessGame =
  board :: "string list list"
  lastMove :: "Move option"
  moveLog :: "Move list"
  redoStack :: "Move list"
  castlingRights :: nat
  history :: "(Move \<times> string) list"
  halfMoveClock :: int
  fullMoveNumber :: int
  isCheck :: bool
  checkKingPosition :: "Position option"
  isCheckmate :: bool
  isStalemate :: bool
  isDraw :: bool
  gameOver :: bool
  winner :: "Color option"
  heap :: "string list list"

text \<open>The set object that \<open>this.castlingRights\<close> points to.\<close>

definition rights :: "ChessGame \<Rightarrow> string list" where
  "rights s = heap s ! castlingRights s"

text \<open>\<open>new Set(xs)\<close>: the elements of \<open>xs\<close> in the order of their first occurrence.\<close>

fun newSet :: "string list \<Rightarrow> string list" where
  "newSet [] = []"
| "newSet (x # xs) = x # newSet (removeAll x xs)"

text \<open>\<open>this.castlingRights.delete(x)\<close>: the set object is changed in place.\<close>

definition deleteRight :: "string \<Rightarrow> ChessGame \<Rightarrow> ChessGame" where
  "deleteRight x s =
     s\<lparr>heap := (heap s)[castlingRights s := removeAll x (heap s ! castlingRights s)]\<rparr>"

text \<open>What \<open>move\<close> returns when it does not return \<open>null\<close>.\<close>

record MoveResult =
  captured :: bool
  castling :: bool

text \<open>
  \<open>TypeError\<close>: a property is read from \<open>undefined\<close>. \<open>UndefinedPiece\<close>: \<open>move\<close>
  read a column outside the row, the source carries on with \<open>undefined\<close> as the
  piece and writes it to the board; cells that are not strings are outside this
  model, which stops there.
\<close>

datatype error = TypeError | UndefinedPiece

section \<open>Strings\<close>

definition isUpperChar :: "char \<Rightarrow> bool" where
  "isUpperChar ch = (let n = (of_char ch :: nat) in 65 \<le> n \<and> n \<le> 90)"

definition isLowerChar :: "char \<Rightarrow> bool" where
  "isLowerChar ch = (let n = (of_char ch :: nat) in 97 \<le> n \<and> n \<le> 122)"

text \<open>
  \<open>toLowerCase\<close> and \<open>toUpperCase\<close> on ASCII strings: the letters A to Z and a to z
  are mapped and every other character is kept. On a string with a character
  outside ASCII the source also maps letters such as \<open>0xE9\<close> (to \<open>0xC9\<close>) and
  \<open>0xDF\<close> (to \<open>"SS"\<close>), which these two functions do not do; the statement on
  promotion below is therefore made for ASCII choices (\<open>isAscii\<close>). In
  \<open>isInsufficientMaterial\<close> the difference does not show: among the code units
  below 256 the source maps no non-ASCII character to an ASCII one, so a
  comparison of the lower-cased letters with \<open>'k'\<close>, \<open>'kn'\<close>, \<open>'b'\<close> and the like
  comes out the same.
\<close>

definition isAscii :: "string \<Rightarrow> bool" where
  "isAscii str = list_all (\<lambda>ch. (of_char ch :: nat) < 128) str"

definition toLowerCase :: "string \<Rightarrow> string" where
  "toLowerCase str = map (\<lambda>ch. if isUpperChar ch then char_of (of_char ch + (32 :: nat)) else ch) str"

definition toUpperCase :: "string \<Rightarrow> string" where
  "toUpperCase str = map (\<lambda>ch. if isLowerChar ch then char_of (of_char ch - (32 :: nat)) else ch) str"

text \<open>The comparison \<open><=\<close> of two strings: by code units, a proper prefix is smaller.\<close>

fun str_le :: "string \<Rightarrow> string \<Rightarrow> bool" where
  "str_le [] ys = True"
| "str_le (x # xs) [] = False"
| "str_le (x # xs) (y # ys) =
     ((of_char x :: nat) < of_char y \<or> (x = y \<and> str_le xs ys))"

text \<open>The tests \<open>piece >= 'A' && piece <= 'Z'\<close> and \<open>piece >= "a" && piece <= "z"\<close>.\<close>

definition geA_leZ :: "string \<Rightarrow> bool" where
  "geA_leZ piece = (str_le ''A'' piece \<and> str_le piece ''Z'')"

definition gea_lez :: "string \<Rightarrow> bool" where
  "gea_lez piece = (str_le ''a'' piece \<and> str_le piece ''z'')"

text \<open>\<open>/[A-Z]/.test(cell)\<close> and \<open>/[a-z]/.test(cell)\<close>: some character of the cell is in the range.\<close>

definition isWhitePiece :: "string \<Rightarrow> bool" where
  "isWhitePiece cl = list_ex isUpperChar cl"

definition isBlackPiece :: "string \<Rightarrow> bool" where
  "isBlackPiece cl = list_ex isLowerChar cl"

section \<open>Board access\<close>

definition isInBounds :: "int \<Rightarrow> int \<Rightarrow> bool" where
  "isInBounds r c = (r \<ge> 0 \<and> r < 8 \<and> c \<ge> 0 \<and> c < 8)"

text \<open>
  A board of the engine has eight rows of eight cells. On such a board every read
  \<open>this.board[r][c]\<close> below is inside the arrays: the readers check \<open>isInBounds\<close>
  first or are given a square of the board. Outside the arrays the source reads
  \<open>undefined\<close> or throws; \<open>cell\<close> gives the empty string there and \<open>setCell\<close>
  changes nothing, and the statements below are made for 8 by 8 boards and squares
  inside them.
\<close>

definition wf_board :: "string list list \<Rightarrow> bool" where
  "wf_board b = (length b = 8 \<and> list_all (\<lambda>r. length r = 8) b)"

definition cell :: "string list list \<Rightarrow> int \<Rightarrow> int \<Rightarrow> string" where
  "cell b r c =
     (if 0 \<le> r \<and> r < int (length b) \<and> 0 \<le> c \<and> c < int (length (b ! nat r))
      then b ! nat r ! nat c else [])"

definition setCell :: "string list list \<Rightarrow> int \<Rightarrow> int \<Rightarrow> string \<Rightarrow> string list list" where
  "setCell b r c v =
     (if 0 \<le> r \<and> r < int (length b) \<and> 0 \<le> c \<and> c < int (length (b ! nat r))
      then b[nat r := (b ! nat r)[nat c := v]] else b)"

definition pieceAt :: "ChessGame \<Rightarrow> Position \<Rightarrow> string" where
  "pieceAt s pos = cell (board s) (row pos) (col pos)"

definition indices :: "int list" where
  "indices = [0, 1, 2, 3, 4, 5, 6, 7]"

text \<open>The squares in the order of the loops \<open>for r ... for c ...\<close>.\<close>

definition allSquares :: "Position list" where
  "allSquares = concat (map (\<lambda>r. map (\<lambda>c. \<lparr>row = r, col = c\<rparr>) indices) indices)"

section \<open>Attack test\<close>

definition knightOffsets :: "(int \<times> int) list" where
  "knightOffsets = [(-2, -1), (-2, 1), (-1, -2), (-1, 2), (1, -2), (1, 2), (2, -1), (2, 1)]"

definition kingOffsets :: "(int \<times> int) list" where
  "kingOffsets = [(-1, -1), (-1, 0), (-1, 1), (0, -1), (0, 1), (1, -1), (1, 0), (1, 1)]"

definition slidingDirections :: "(int \<times> int) list" where
  "slidingDirections = [(-1, 0), (1, 0), (0, -1), (0, 1), (-1, -1), (-1, 1), (1, -1), (1, 1)]"

text \<open>How many steps a ray from \<open>(r, c)\<close> in direction \<open>(dr, dc)\<close> can still take.\<close>

definition rayMeasure :: "int \<Rightarrow> int \<Rightarrow> int \<Rightarrow> int \<Rightarrow> nat" where
  "rayMeasure r c dr dc =
     (if dr > 0 then nat (8 - r) else if dr < 0 then nat (r + 1)
      else if dc > 0 then nat (8 - c) else nat (c + 1))"

text \<open>
  One ray of the loop over \<open>slidingDirections\<close> in \<open>isSquareAttacked\<close>, on the
  board \<open>b\<close> of the game; \<open>i\<close> is the index of the direction. The \<open>while\<close> loop is only entered with one of the eight
  unit directions; with the zero direction it would not end, the model gives
  \<open>False\<close> there.
\<close>

function attackRay :: "string list list \<Rightarrow> Color \<Rightarrow> nat \<Rightarrow> int \<Rightarrow> int \<Rightarrow> int \<Rightarrow> int \<Rightarrow> bool" where
  "attackRay b byColor i r c dr dc =
     (if isInBounds r c \<and> (dr \<noteq> 0 \<or> dc \<noteq> 0) then
        (let piece = cell b r c in
         if piece \<noteq> ''.'' then
           (if byColor = White then isWhitePiece piece else isBlackPiece piece) \<and>
           (piece = (if byColor = White then ''Q'' else ''q'') \<or>
            (i < 4 \<and> piece = (if byColor = White then ''R'' else ''r'')) \<or>
            (i \<ge> 4 \<and> piece = (if byColor = White then ''B'' else ''b'')))
         else attackRay b byColor i (r + dr) (c + dc) dr dc)
      else False)"
  by pat_completeness auto
termination
  by (relation "measure (\<lambda>(b, byColor, i, r, c, dr, dc). rayMeasure r c dr dc)")
     (auto simp: rayMeasure_def isInBounds_def)

definition isSquareAttacked :: "ChessGame \<Rightarrow> Position \<Rightarrow> Color \<Rightarrow> bool" where
  "isSquareAttacked s pos byColor =
     (let b = board s;
          pawnDirection = (if byColor = White then 1 else -1 :: int);
          opponentPawn = (if byColor = White then ''P'' else ''p'');
          opponentKnight = (if byColor = White then ''N'' else ''n'');
          opponentKing = (if byColor = White then ''K'' else ''k'')
      in list_ex (\<lambda>dc. isInBounds (row pos + pawnDirection) (col pos + dc) \<and>
                        cell b (row pos + pawnDirection) (col pos + dc) = opponentPawn) [-1, 1]
         \<or> list_ex (\<lambda>(dr, dc). isInBounds (row pos + dr) (col pos + dc) \<and>
                        cell b (row pos + dr) (col pos + dc) = opponentKnight) knightOffsets
         \<or> list_ex (\<lambda>(i, dr, dc). attackRay b byColor i (row pos + dr) (col pos + dc) dr dc)
              (zip [0 ..< length slidingDirections] slidingDirections)
         \<or> list_ex (\<lambda>(dr, dc). isInBounds (row pos + dr) (col pos + dc) \<and>
                        cell b (row pos + dr) (col pos + dc) = opponentKing) kingOffsets)"

section \<open>Move generation\<close>

definition isEnpassantMove :: "ChessGame \<Rightarrow> Position \<Rightarrow> Position \<Rightarrow> Move \<Rightarrow> bool" where
  "isEnpassantMove s frm to lm =
     (let piece = pieceAt s frm;
          isWhite = (piece = ''P'')
      in if \<not> (piece = ''p'' \<or> isWhite) then False
         else let direction = (if isWhite then -1 else 1 :: int) in
           if \<bar>col frm - col to\<bar> \<noteq> 1 \<or> row to - row frm \<noteq> direction then False
           else let opponentPawn = (if isWhite then ''p'' else ''P'') in
             mv_piece lm = opponentPawn \<and>
             \<bar>row (mv_from lm) - row (mv_to lm)\<bar> = 2 \<and>
             row (mv_to lm) = row frm \<and>
             col (mv_to lm) = col to)"

definition getLeapingMoves :: "ChessGame \<Rightarrow> Position \<Rightarrow> (int \<times> int) list \<Rightarrow> Position list" where
  "getLeapingMoves s pos offsets =
     (let piece = pieceAt s pos;
          isWhite = isWhitePiece piece
      in concat (map (\<lambda>(dr, dc).
           let r = row pos + dr; c = col pos + dc in
           if isInBounds r c then
             (let target = cell (board s) r c in
              if target = ''.'' \<or> (if isWhite then isBlackPiece target else isWhitePiece target)
              then [\<lparr>row = r, col = c\<rparr>] else [])
           else []) offsets))"

text \<open>
  The \<open>while\<close> loop of \<open>getSlidingMoves\<close> for one direction, on the board \<open>b\<close> of
  the game (the same remark on the zero direction as for \<open>attackRay\<close>).
\<close>

function slide :: "string list list \<Rightarrow> bool \<Rightarrow> int \<Rightarrow> int \<Rightarrow> int \<Rightarrow> int \<Rightarrow> Position list" where
  "slide b isWhite r c dr dc =
     (if isInBounds r c \<and> (dr \<noteq> 0 \<or> dc \<noteq> 0) then
        (let target = cell b r c in
         if target = ''.'' then \<lparr>row = r, col = c\<rparr> # slide b isWhite (r + dr) (c + dc) dr dc
         else if (if isWhite then isBlackPiece target else isWhitePiece target)
              then [\<lparr>row = r, col = c\<rparr>] else [])
      else [])"
  by pat_completeness auto
termination
  by (relation "measure (\<lambda>(b, isWhite, r, c, dr, dc). rayMeasure r c dr dc)")
     (auto simp: rayMeasure_def isInBounds_def)

definition getSlidingMoves :: "ChessGame \<Rightarrow> Position \<Rightarrow> (int \<times> int) list \<Rightarrow> Position list" where
  "getSlidingMoves s pos directions =
     (let piece = pieceAt s pos;
          isWhite = isWhitePiece piece
      in concat (map (\<lambda>(dr, dc). slide (board s) isWhite (row pos + dr) (col pos + dc) dr dc) directions))"

definition getValidRookMoves :: "ChessGame \<Rightarrow> Position \<Rightarrow> Position list" where
  "getValidRookMoves s pos = getSlidingMoves s pos [(-1, 0), (1, 0), (0, -1), (0, 1)]"

definition getValidBishopMoves :: "ChessGame \<Rightarrow> Position \<Rightarrow> Position list" where
  "getValidBishopMoves s pos = getSlidingMoves s pos [(-1, -1), (-1, 1), (1, -1), (1, 1)]"

definition getValidQueenMoves :: "ChessGame \<Rightarrow> Position \<Rightarrow> Position list" where
  "getValidQueenMoves s pos = getValidRookMoves s pos @ getValidBishopMoves s pos"

definition getValidKnightMoves :: "ChessGame \<Rightarrow> Position \<Rightarrow> Position list" where
  "getValidKnightMoves s pos = getLeapingMoves s pos knightOffsets"

definition getValidKingMoves :: "ChessGame \<Rightarrow> Position \<Rightarrow> Position list" where
  "getValidKingMoves s pos =
     (let moves = getLeapingMoves s pos kingOffsets;
          piece = pieceAt s pos;
          isWhite = isWhitePiece piece;
          kingRow = (if isWhite then 7 else 0 :: int);
          opponentColor = (if isWhite then Black else White)
      in if row pos \<noteq> kingRow \<or> col pos \<noteq> 4 \<or> isSquareAttacked s pos opponentColor then moves
         else
           (let kingsideRight = (if isWhite then ''K'' else ''k'');
                queensideRight = (if isWhite then ''Q'' else ''q'');
                b = board s
            in moves
               @ (if kingsideRight \<in> set (rights s) \<and>
                     cell b kingRow 5 = ''.'' \<and>
                     cell b kingRow 6 = ''.'' \<and>
                     \<not> isSquareAttacked s \<lparr>row = kingRow, col = 5\<rparr> opponentColor \<and>
                     \<not> isSquareAttacked s \<lparr>row = kingRow, col = 6\<rparr> opponentColor
                  then [\<lparr>row = kingRow, col = 6\<rparr>] else [])
               @ (if queensideRight \<in> set (rights s) \<and>
                     cell b kingRow 1 = ''.'' \<and>
                     cell b kingRow 2 = ''.'' \<and>
                     cell b kingRow 3 = ''.'' \<and>
                     \<not> isSquareAttacked s \<lparr>row = kingRow, col = 2\<rparr> opponentColor \<and>
                     \<not> isSquareAttacked s \<lparr>row = kingRow, col = 3\<rparr> opponentColor
                  then [\<lparr>row = kingRow, col = 2\<rparr>] else [])))"

definition getValidWhitePawnMoves :: "ChessGame \<Rightarrow> Position \<Rightarrow> Position list" where
  "getValidWhitePawnMoves s pos =
     (let r = row pos; c = col pos; b = board s in
        (if isInBounds (r - 1) c \<and> cell b (r - 1) c = ''.'' then
           \<lparr>row = r - 1, col = c\<rparr> #
             (if r = 6 \<and> cell b (r - 2) c = ''.'' then [\<lparr>row = r - 2, col = c\<rparr>] else [])
         else [])
        @ concat (map (\<lambda>dc.
            let newRow = r - 1; newCol = c + dc in
            if isInBounds newRow newCol \<and> isBlackPiece (cell b newRow newCol)
            then [\<lparr>row = newRow, col = newCol\<rparr>] else []) [-1, 1])
        @ (case lastMove s of
             None \<Rightarrow> []
           | Some lm \<Rightarrow>
               if r = 3 then
                 concat (map (\<lambda>dc.
                   let target = \<lparr>row = r - 1, col = c + dc\<rparr> in
                   if isInBounds (row target) (col target) \<and>
                      isEnpassantMove s \<lparr>row = r, col = c\<rparr> target lm
                   then [target] else []) [-1, 1])
               else []))"

definition getValidBlackPawnMoves :: "ChessGame \<Rightarrow> Position \<Rightarrow> Position list" where
  "getValidBlackPawnMoves s pos =
     (let r = row pos; c = col pos; b = board s in
        (if isInBounds (r + 1) c \<and> cell b (r + 1) c = ''.'' then
           \<lparr>row = r + 1, col = c\<rparr> #
             (if r = 1 \<and> cell b (r + 2) c = ''.'' then [\<lparr>row = r + 2, col = c\<rparr>] else [])
         else [])
        @ concat (map (\<lambda>dc.
            let newRow = r + 1; newCol = c + dc in
            if isInBounds newRow newCol \<and> isWhitePiece (cell b newRow newCol)
            then [\<lparr>row = newRow, col = newCol\<rparr>] else []) [-1, 1])
        @ (case lastMove s of
             None \<Rightarrow> []
           | Some lm \<Rightarrow>
               if r = 4 then
                 concat (map (\<lambda>dc.
                   let target = \<lparr>row = r + 1, col = c + dc\<rparr> in
                   if isInBounds (row target) (col target) \<and>
                      isEnpassantMove s \<lparr>row = r, col = c\<rparr> target lm
                   then [target] else []) [-1, 1])
               else []))"

text \<open>
  The \<open>switch\<close> of \<open>getValidMoves\<close>: the moves of the piece on \<open>pos\<close> before the
  legality filter. It is what \<open>getValidMoves(pos, true)\<close> returns.
\<close>

definition pieceMoves :: "ChessGame \<Rightarrow> Position \<Rightarrow> Position list" where
  "pieceMoves s pos =
     (let piece = pieceAt s pos in
      if piece = ''P'' then getValidWhitePawnMoves s pos
      else if piece = ''p'' then getValidBlackPawnMoves s pos
      else if piece = ''R'' \<or> piece = ''r'' then getValidRookMoves s pos
      else if piece = ''B'' \<or> piece = ''b'' then getValidBishopMoves s pos
      else if piece = ''Q'' \<or> piece = ''q'' then getValidQueenMoves s pos
      else if piece = ''N'' \<or> piece = ''n'' then getValidKnightMoves s pos
      else if piece = ''K'' \<or> piece = ''k'' then getValidKingMoves s pos
      else [])"

definition findKing :: "ChessGame \<Rightarrow> KingColor \<Rightarrow> Position option" where
  "findKing s color =
     (let kingPiece = (if color = W then ''K'' else ''k'') in
      find (\<lambda>p. pieceAt s p = kingPiece) allSquares)"

definition getPieces :: "ChessGame \<Rightarrow> Color \<Rightarrow> (string \<times> Position) list" where
  "getPieces s color =
     (let isWhite = (color = White) in
      concat (map (\<lambda>p.
        let piece = pieceAt s p in
        if piece \<noteq> ''.'' then
          (let pieceIsWhite = geA_leZ piece in
           if (isWhite \<and> pieceIsWhite) \<or> (\<not> isWhite \<and> \<not> pieceIsWhite) then [(piece, p)] else [])
        else []) allSquares))"

text \<open>
  \<open>isKingInCheck\<close> asks \<open>getValidMoves(piecePos, true)\<close> for every piece of the
  opponent; with \<open>forAttackCheck\<close> set that call returns the moves of the \<open>switch\<close>.
\<close>

definition isKingInCheck :: "ChessGame \<Rightarrow> KingColor \<Rightarrow> bool" where
  "isKingInCheck s kingColor =
     (case findKing s kingColor of
        None \<Rightarrow> False
      | Some kingPos \<Rightarrow>
          (let opponentColor = (if kingColor = W then Black else White);
               opponentPieces = getPieces s opponentColor
           in list_ex (\<lambda>(pc, piecePos).
                list_ex (\<lambda>m. row m = row kingPos \<and> col m = col kingPos) (pieceMoves s piecePos))
              opponentPieces))"

text \<open>
  The legality filter of \<open>getValidMoves\<close>. The callback of \<open>moves.filter\<close> writes the
  candidate move into \<open>this.board\<close>, asks \<open>isKingInCheck\<close> and writes the two
  squares back; the state is passed through every candidate.
\<close>

fun filterLegal :: "ChessGame \<Rightarrow> Position \<Rightarrow> string \<Rightarrow> Position list \<Rightarrow> Position list \<times> ChessGame" where
  "filterLegal s pos piece [] = ([], s)"
| "filterLegal s pos piece (to # rest) =
     (let kingColor = (if geA_leZ piece then W else B);
          originalPieceAtTo = pieceAt s to;
          s1 = s\<lparr>board := setCell (board s) (row pos) (col pos) ''.''\<rparr>;
          s2 = s1\<lparr>board := setCell (board s1) (row to) (col to) piece\<rparr>;
          leavesKingInCheck = isKingInCheck s2 kingColor;
          s3 = s2\<lparr>board := setCell (board s2) (row pos) (col pos) piece\<rparr>;
          s4 = s3\<lparr>board := setCell (board s3) (row to) (col to) originalPieceAtTo\<rparr>;
          (kept, s') = filterLegal s4 pos piece rest
      in (if \<not> leavesKingInCheck then to # kept else kept, s'))"

definition getValidMoves :: "ChessGame \<Rightarrow> Position \<Rightarrow> bool \<Rightarrow> Position list \<times> ChessGame" where
  "getValidMoves s pos forAttackCheck =
     (let piece = pieceAt s pos;
          moves = pieceMoves s pos
      in if forAttackCheck then (moves, s) else filterLegal s pos piece moves)"

section \<open>Game-end evaluation\<close>

text \<open>
  \<open>getAllValidMoves\<close>: the loop over the pieces of one colour. Each entry of the
  result stands for the object \<open>{from, to, piece, castlingRightsBefore: new Set()}\<close>
  of the source; these objects never enter the game state, so their empty sets
  are not put on the heap.
\<close>

fun allValidMovesLoop ::
  "ChessGame \<Rightarrow> (string \<times> Position) list \<Rightarrow> (Position \<times> Position \<times> string) list \<times> ChessGame" where
  "allValidMovesLoop s [] = ([], s)"
| "allValidMovesLoop s ((pc, pos) # rest) =
     (let (moves, s1) = getValidMoves s pos False;
          here = map (\<lambda>to. (pos, to, pieceAt s1 pos)) moves;
          (more, s2) = allValidMovesLoop s1 rest
      in (here @ more, s2))"

definition getAllValidMoves ::
  "ChessGame \<Rightarrow> KingColor \<Rightarrow> (Position \<times> Position \<times> string) list \<times> ChessGame" where
  "getAllValidMoves s kingColor =
     (let playerColor = (if kingColor = W then White else Black);
          pieces = getPieces s playerColor
      in allValidMovesLoop s pieces)"

text \<open>\<open>Array.prototype.sort()\<close> on strings: ascending in the order of \<open>str_le\<close>.\<close>

fun insertSorted :: "string \<Rightarrow> string list \<Rightarrow> string list" where
  "insertSorted x [] = [x]"
| "insertSorted x (y # ys) = (if str_le x y then x # y # ys else y # insertSorted x ys)"

definition sortStrings :: "string list \<Rightarrow> string list" where
  "sortStrings xs = foldr insertSorted xs []"

text \<open>
  \<open>isInsufficientMaterial\<close>. With \<open>pieceChars === 'bbkk'\<close> the source reads
  \<open>bishops[0].pos\<close> and \<open>bishops[1].pos\<close>; when fewer than two cells are a lone
  \<open>b\<close> or \<open>B\<close> that read throws.
\<close>

definition isInsufficientMaterial :: "ChessGame \<Rightarrow> error + bool" where
  "isInsufficientMaterial s =
     (let pieces = getPieces s White @ getPieces s Black;
          pieceChars = concat (sortStrings (map (\<lambda>(pc, pos). toLowerCase pc) pieces))
      in if pieceChars = ''k'' then Inr True
         else if pieceChars = ''kn'' \<or> pieceChars = ''kkn'' then Inr True
         else if pieceChars = ''bk'' \<or> pieceChars = ''bkk'' then Inr True
         else if pieceChars = ''bbkk'' then
           (case filter (\<lambda>(pc, pos). toLowerCase pc = ''b'') pieces of
              (pc0, p0) # (pc1, p1) # others \<Rightarrow>
                Inr ((row p0 + col p0) mod 2 = (row p1 + col p1) mod 2)
            | _ \<Rightarrow> Inl TypeError)
         else Inr False)"

text \<open>The decimal numeral of a count of empty squares (at most 8 in a row).\<close>

definition digitString :: "nat \<Rightarrow> string" where
  "digitString n = [char_of (48 + n)]"

text \<open>
  The inner loop of \<open>boardToFen\<close> over the cells of one row; \<open>n\<close> is the running
  count \<open>empty\<close>.
\<close>

fun fenRow :: "string list \<Rightarrow> nat \<Rightarrow> string" where
  "fenRow [] n = (if n > 0 then digitString n else [])"
| "fenRow (piece # rest) n =
     (if piece = ''.'' then fenRow rest (n + 1)
      else (if n > 0 then digitString n else []) @ piece @ fenRow rest 0)"

definition boardToFen :: "ChessGame \<Rightarrow> string" where
  "boardToFen s =
     (let fen = concat (map (\<lambda>i.
            fenRow (map (\<lambda>j. cell (board s) i j) indices) 0 @ (if i < 7 then ''/'' else []))
          indices)
      in takeWhile (\<lambda>ch. ch \<noteq> CHR '' '') fen)"

definition isThreefoldRepetition :: "ChessGame \<Rightarrow> bool" where
  "isThreefoldRepetition s =
     (let fen = boardToFen s;
          count = length (filter (\<lambda>(m, f). f = fen) (history s))
      in count \<ge> 2)"

text \<open>
  \<open>updateGameState\<close>. The result is paired with the state because the one
  exception it can raise (from \<open>isInsufficientMaterial\<close>) leaves the assignments
  made before it in place.
\<close>

definition updateGameState :: "ChessGame \<Rightarrow> (error + unit) \<times> ChessGame" where
  "updateGameState s =
     (let turn = (if length (moveLog s) mod 2 = 0 then White else Black);
          kingColor = (if turn = White then W else B);
          s1 = s\<lparr>isCheck := isKingInCheck s kingColor\<rparr>;
          s2 = s1\<lparr>checkKingPosition := (if isCheck s1 then findKing s1 kingColor else None)\<rparr>;
          (allMoves, s3) = getAllValidMoves s2 kingColor;
          hasValidMoves = (length allMoves > 0)
      in if isCheck s3 \<and> \<not> hasValidMoves then
           (Inr (), s3\<lparr>isCheckmate := True, gameOver := True,
                        winner := Some (if turn = White then Black else White)\<rparr>)
         else if \<not> isCheck s3 \<and> \<not> hasValidMoves then
           (Inr (), s3\<lparr>isStalemate := True, gameOver := True\<rparr>)
         else
           (case isInsufficientMaterial s3 of
              Inl e \<Rightarrow> (Inl e, s3)
            | Inr insufficient \<Rightarrow>
                if insufficient \<or> isThreefoldRepetition s3 \<or> halfMoveClock s3 \<ge> 100
                then (Inr (), s3\<lparr>isDraw := True, gameOver := True\<rparr>)
                else (Inr (), s3)))"

section \<open>Applying, undoing and redoing a move\<close>

text \<open>The rook relocation of a castling move, shared by \<open>move\<close> and \<open>redo\<close> (same text in both).\<close>

definition castleRook :: "Position \<Rightarrow> Position \<Rightarrow> ChessGame \<Rightarrow> ChessGame" where
  "castleRook frm to s =
     (let rookRow = row frm in
      if col to = 6 then
        (let s1 = s\<lparr>board := setCell (board s) rookRow 5 (cell (board s) rookRow 7)\<rparr>
         in s1\<lparr>board := setCell (board s1) rookRow 7 ''.''\<rparr>)
      else if col to = 2 then
        (let s1 = s\<lparr>board := setCell (board s) rookRow 3 (cell (board s) rookRow 0)\<rparr>
         in s1\<lparr>board := setCell (board s1) rookRow 0 ''.''\<rparr>)
      else s)"

text \<open>The castling-rights updates of \<open>move\<close>.\<close>

definition moveRights :: "string \<Rightarrow> string \<Rightarrow> Position \<Rightarrow> Position \<Rightarrow> ChessGame \<Rightarrow> ChessGame" where
  "moveRights piece actualCaptured frm to s =
     (let s1 = (if piece = ''K'' then deleteRight ''Q'' (deleteRight ''K'' s)
                else if piece = ''k'' then deleteRight ''q'' (deleteRight ''k'' s)
                else s);
          s2 = (if piece = ''R'' then
                  (let t = (if row frm = 7 \<and> col frm = 0 then deleteRight ''Q'' s1 else s1)
                   in if row frm = 7 \<and> col frm = 7 then deleteRight ''K'' t else t)
                else s1);
          s3 = (if piece = ''r'' then
                  (let t = (if row frm = 0 \<and> col frm = 0 then deleteRight ''q'' s2 else s2)
                   in if row frm = 0 \<and> col frm = 7 then deleteRight ''k'' t else t)
                else s2);
          s4 = (if actualCaptured = ''R'' then
                  (let t = (if row to = 7 \<and> col to = 0 then deleteRight ''Q'' s3 else s3)
                   in if row to = 7 \<and> col to = 7 then deleteRight ''K'' t else t)
                else s3)
      in if actualCaptured = ''r'' then
           (let t = (if row to = 0 \<and> col to = 0 then deleteRight ''q'' s4 else s4)
            in if row to = 0 \<and> col to = 7 then deleteRight ''k'' t else t)
         else s4)"

text \<open>
  The body of \<open>move\<close> from the snapshot of the rights to the clearing of the redo
  stack, for a from-square holding \<open>piece\<close>: the state before
  \<open>updateGameState\<close>, the piece removed and the castling flag.
\<close>

definition applyMove ::
  "ChessGame \<Rightarrow> Position \<Rightarrow> Position \<Rightarrow> string option \<Rightarrow> ChessGame \<times> string \<times> bool" where
  "applyMove s frm to promotionPiece =
     (let piece = pieceAt s frm;
          castlingRightsBefore = length (heap s);
          s0 = s\<lparr>heap := heap s @ [rights s]\<rparr>;
          capturedAtTo = pieceAt s0 to;
          isWhitePawn = (piece = ''P'');
          isBlackPawn = (piece = ''p'');
          enPassant = ((isWhitePawn \<or> isBlackPawn) \<and>
                       (case lastMove s0 of None \<Rightarrow> False | Some lm \<Rightarrow> isEnpassantMove s0 frm to lm));
          capturedRow = (if isWhitePawn then row to + 1 else row to - 1);
          actualCaptured = (if enPassant then cell (board s0) capturedRow (col to) else capturedAtTo);
          s1 = (if enPassant then s0\<lparr>board := setCell (board s0) capturedRow (col to) ''.''\<rparr> else s0);
          isPromotion = ((isWhitePawn \<and> row to = 0) \<or> (isBlackPawn \<and> row to = 7));
          pieceToPlace =
            (if isPromotion then
               (let promoteTo = toLowerCase
                      (case promotionPiece of None \<Rightarrow> ''q'' | Some p \<Rightarrow> if p = [] then ''q'' else p)
                in if isWhitePawn then toUpperCase promoteTo else promoteTo)
             else piece);
          s2 = s1\<lparr>board := setCell (board s1) (row to) (col to) pieceToPlace\<rparr>;
          s3 = s2\<lparr>board := setCell (board s2) (row frm) (col frm) ''.''\<rparr>;
          isCastling = ((piece = ''K'' \<or> piece = ''k'') \<and> \<bar>col frm - col to\<bar> = 2);
          s4 = (if isCastling then castleRook frm to s3 else s3);
          s5 = moveRights piece actualCaptured frm to s4;
          mv = \<lparr>mv_from = frm, mv_to = to, mv_piece = piece, mv_captured = Some actualCaptured,
                mv_castlingRightsBefore = castlingRightsBefore, mv_castling = None\<rparr>;
          s6 = s5\<lparr>lastMove := Some mv\<rparr>;
          s7 = s6\<lparr>moveLog := moveLog s6 @ [mv]\<rparr>
      in (s7\<lparr>redoStack := []\<rparr>, actualCaptured, isCastling))"

text \<open>
  \<open>move\<close>. \<open>Inr None\<close> is the \<open>null\<close> result. The first two branches are the read
  \<open>this.board[from.row][from.col]\<close> outside the arrays. \<open>!!actualCaptured\<close> is
  true for every string but the empty one.
\<close>

definition move ::
  "ChessGame \<Rightarrow> Position \<Rightarrow> Position \<Rightarrow> string option \<Rightarrow> (error + MoveResult option) \<times> ChessGame" where
  "move s frm to promotionPiece =
     (if \<not> (0 \<le> row frm \<and> row frm < int (length (board s))) then (Inl TypeError, s)
      else if \<not> (0 \<le> col frm \<and> col frm < int (length (board s ! nat (row frm))))
        then (Inl UndefinedPiece, s)
      else
        (let piece = pieceAt s frm in
         if piece = ''.'' \<or> \<not> isInBounds (row to) (col to) then (Inr None, s)
         else
           (let (s1, actualCaptured, isCastling) = applyMove s frm to promotionPiece;
                (r, s2) = updateGameState s1
            in case r of
                 Inl e \<Rightarrow> (Inl e, s2)
               | Inr u \<Rightarrow> (Inr (Some \<lparr>captured = (actualCaptured \<noteq> []), castling = isCastling\<rparr>), s2))))"

definition undo :: "ChessGame \<Rightarrow> ChessGame" where
  "undo s =
     (if length (moveLog s) = 0 then s
      else
        (let lastM = last (moveLog s);
             s0 = s\<lparr>moveLog := butlast (moveLog s)\<rparr>;
             frm = mv_from lastM; to = mv_to lastM; piece = mv_piece lastM;
             s1 = s0\<lparr>board := setCell (board s0) (row frm) (col frm) piece\<rparr>;
             s2 = s1\<lparr>board := setCell (board s1) (row to) (col to) ''.''\<rparr>;
             isCastling = ((piece = ''K'' \<or> piece = ''k'') \<and> \<bar>col frm - col to\<bar> = 2);
             s3 = (if isCastling then
                     (let rookRow = row frm in
                      if col to = 6 then
                        (let t = s2\<lparr>board := setCell (board s2) rookRow 7 (cell (board s2) rookRow 5)\<rparr>
                         in t\<lparr>board := setCell (board t) rookRow 5 ''.''\<rparr>)
                      else if col to = 2 then
                        (let t = s2\<lparr>board := setCell (board s2) rookRow 0 (cell (board s2) rookRow 3)\<rparr>
                         in t\<lparr>board := setCell (board t) rookRow 3 ''.''\<rparr>)
                      else s2)
                   else s2);
             s4 = (case mv_captured lastM of
                     None \<Rightarrow> s3
                   | Some capturedPiece \<Rightarrow>
                       if capturedPiece \<noteq> [] \<and> capturedPiece \<noteq> ''.'' then
                         (if (piece = ''P'' \<and> row frm = 3 \<and> row to = 2 \<and> \<bar>col frm - col to\<bar> = 1 \<and>
                              pieceAt s3 to = ''.'') \<or>
                             (piece = ''p'' \<and> row frm = 4 \<and> row to = 5 \<and> \<bar>col frm - col to\<bar> = 1 \<and>
                              pieceAt s3 to = ''.'')
                          then
                            (let capturedRow = (if piece = ''P'' then row to + 1 else row to - 1)
                             in s3\<lparr>board := setCell (board s3) capturedRow (col to) capturedPiece\<rparr>)
                          else s3\<lparr>board := setCell (board s3) (row to) (col to) capturedPiece\<rparr>)
                       else s3);
             s5 = s4\<lparr>castlingRights := mv_castlingRightsBefore lastM\<rparr>;
             s6 = s5\<lparr>redoStack := redoStack s5 @ [lastM]\<rparr>
         in s6\<lparr>lastMove := (if moveLog s6 = [] then None else Some (last (moveLog s6)))\<rparr>))"

text \<open>The castling-rights updates of \<open>redo\<close>.\<close>

definition redoRights :: "string \<Rightarrow> string option \<Rightarrow> Position \<Rightarrow> Position \<Rightarrow> ChessGame \<Rightarrow> ChessGame" where
  "redoRights piece capturedPiece frm to s =
     (let s1 = (if piece = ''K'' then deleteRight ''Q'' (deleteRight ''K'' s)
                else if piece = ''k'' then deleteRight ''q'' (deleteRight ''k'' s)
                else s);
          s2 = (if piece = ''R'' \<or> capturedPiece = Some ''R'' then
                  (let t = (if (row frm = 7 \<and> col frm = 0) \<or> (row to = 7 \<and> col to = 0)
                            then deleteRight ''Q'' s1 else s1)
                   in if (row frm = 7 \<and> col frm = 7) \<or> (row to = 7 \<and> col to = 7)
                      then deleteRight ''K'' t else t)
                else s1)
      in if piece = ''r'' \<or> capturedPiece = Some ''r'' then
           (let t = (if (row frm = 0 \<and> col frm = 0) \<or> (row to = 0 \<and> col to = 0)
                     then deleteRight ''q'' s2 else s2)
            in if (row frm = 0 \<and> col frm = 7) \<or> (row to = 0 \<and> col to = 7)
               then deleteRight ''k'' t else t)
         else s2)"

definition redo :: "ChessGame \<Rightarrow> ChessGame" where
  "redo s =
     (if length (redoStack s) = 0 then s
      else
        (let mv = last (redoStack s);
             s0 = s\<lparr>redoStack := butlast (redoStack s)\<rparr>;
             frm = mv_from mv; to = mv_to mv; piece = mv_piece mv; capturedPiece = mv_captured mv;
             s1 = (if (piece = ''P'' \<or> piece = ''p'') \<and>
                      (case lastMove s0 of None \<Rightarrow> False | Some lm \<Rightarrow> isEnpassantMove s0 frm to lm) \<and>
                      (case capturedPiece of None \<Rightarrow> False | Some cp \<Rightarrow> cp \<noteq> [] \<and> cp \<noteq> ''.'')
                   then
                     (let capturedRow = (if piece = ''P'' then row to + 1 else row to - 1)
                      in s0\<lparr>board := setCell (board s0) capturedRow (col to) ''.''\<rparr>)
                   else s0);
             s2 = s1\<lparr>board := setCell (board s1) (row to) (col to) piece\<rparr>;
             s3 = s2\<lparr>board := setCell (board s2) (row frm) (col frm) ''.''\<rparr>;
             isCastling = ((piece = ''K'' \<or> piece = ''k'') \<and> \<bar>col frm - col to\<bar> = 2);
             s4 = (if isCastling then castleRook frm to s3 else s3);
             s5 = redoRights piece capturedPiece frm to s4;
             s6 = s5\<lparr>moveLog := moveLog s5 @ [mv]\<rparr>
         in s6\<lparr>lastMove := Some mv\<rparr>))"

section \<open>Construction from a FEN string\<close>

text \<open>\<open>str.split(sep)\<close> for a separator of one character.\<close>

fun splitOn :: "char \<Rightarrow> string \<Rightarrow> string list" where
  "splitOn sep [] = [[]]"
| "splitOn sep (x # xs) =
     (if x = sep then [] # splitOn sep xs
      else (case splitOn sep xs of [] \<Rightarrow> [[x]] | w # ws \<Rightarrow> (x # w) # ws))"

definition isDigitChar :: "char \<Rightarrow> bool" where
  "isDigitChar ch = (let n = (of_char ch :: nat) in 48 \<le> n \<and> n \<le> 57)"

text \<open>
  The white space and line terminators that \<open>Number\<close> and \<open>parseInt\<close> skip, among
  the code units below 256.
\<close>

definition isSpaceChar :: "char \<Rightarrow> bool" where
  "isSpaceChar ch = (let n = (of_char ch :: nat) in (9 \<le> n \<and> n \<le> 13) \<or> n = 32 \<or> n = 160)"

text \<open>
  \<open>fenToBoard\<close>. For one character, \<open>Number(char)\<close> is its value for a digit, 0
  for white space and \<open>NaN\<close> for everything else.
\<close>

definition fenToBoard :: "string \<Rightarrow> string list list" where
  "fenToBoard fenBoard =
     map (\<lambda>r. concat (map (\<lambda>ch.
            if \<not> (isDigitChar ch \<or> isSpaceChar ch) then [[ch]]
            else replicate (if isDigitChar ch then of_char ch - 48 else 0) ''.'') r))
       (splitOn CHR ''/'' fenBoard)"

text \<open>
  \<open>parseInt(str, 10)\<close>: leading white space, an optional sign, then the longest run
  of digits; \<open>None\<close> is \<open>NaN\<close>. (The source computes in double precision; the
  model keeps the exact integer.)
\<close>

definition parseInt :: "string \<Rightarrow> int option" where
  "parseInt str =
     (let t = dropWhile isSpaceChar str;
          negative = (t \<noteq> [] \<and> hd t = CHR ''-'');
          u = (if t \<noteq> [] \<and> (hd t = CHR ''-'' \<or> hd t = CHR ''+'') then tl t else t);
          ds = takeWhile isDigitChar u;
          v = foldl (\<lambda>acc d. 10 * acc + (int (of_char d) - 48)) 0 ds
      in if ds = [] then None else Some (if negative then - v else v))"

text \<open>
  The constructor up to the call of \<open>updateGameState\<close>. A FEN with fewer than three
  fields leaves \<open>castling\<close> undefined and \<open>castling.split\<close> throws; a missing clock
  field is \<open>parseInt(undefined)\<close>, that is \<open>NaN\<close>. The set of the rights is the
  first object on the heap.
\<close>

definition parseFen :: "string \<Rightarrow> error + ChessGame" where
  "parseFen fen =
     (let parts = splitOn CHR '' '' fen;
          field = (\<lambda>i. if i < length parts then Some (parts ! i) else None)
      in case field 0 of
           None \<Rightarrow> Inl TypeError
         | Some boardPart \<Rightarrow>
             (case field 2 of
                None \<Rightarrow> Inl TypeError
              | Some castlingPart \<Rightarrow>
                  (let clock = (\<lambda>i d. case field i of
                                        None \<Rightarrow> d
                                      | Some str \<Rightarrow> (case parseInt str of
                                                       None \<Rightarrow> d
                                                     | Some n \<Rightarrow> if n = 0 then d else n))
                   in Inr \<lparr>board = fenToBoard boardPart,
                            lastMove = None, moveLog = [], redoStack = [],
                            castlingRights = 0,
                            history = [],
                            halfMoveClock = clock 4 0,
                            fullMoveNumber = clock 5 1,
                            isCheck = False, checkKingPosition = None,
                            isCheckmate = False, isStalemate = False, isDraw = False,
                            gameOver = False, winner = None,
                            heap = [newSet (if castlingPart = ''-'' then []
                                            else map (\<lambda>ch. [ch]) castlingPart)]\<rparr>)))"

text \<open>The constructor. An exception of \<open>updateGameState\<close> leaves no object.\<close>

definition newChessGame :: "string \<Rightarrow> error + ChessGame" where
  "newChessGame fen =
     (case parseFen fen of
        Inl e \<Rightarrow> Inl e
      | Inr s \<Rightarrow> (case updateGameState s of
                    (Inl e, s') \<Rightarrow> Inl e
                  | (Inr u, s') \<Rightarrow> Inr s'))"

section \<open>Driving the engine\<close>

text \<open>
  The board component selects a square when its piece has the colour to move
  (\<open>props.turn\<close>, white at the start and switched after every move), shows
  \<open>getValidMoves\<close> of the square and calls \<open>move\<close> when one of the shown squares is
  clicked. \<open>offered\<close> is that test, \<open>playLegal\<close> a sequence of such moves from a
  state; \<open>None\<close> when a move of the sequence is not offered or does not succeed.
\<close>

definition offered :: "ChessGame \<Rightarrow> Position \<Rightarrow> Position \<Rightarrow> bool" where
  "offered s frm to =
     (let piece = pieceAt s frm;
          pieceColor = (if gea_lez piece then Black else White);
          turn = (if length (moveLog s) mod 2 = 0 then White else Black)
      in piece \<noteq> ''.'' \<and> turn = pieceColor \<and> to \<in> set (fst (getValidMoves s frm False)))"

fun playLegal :: "ChessGame \<Rightarrow> (Position \<times> Position \<times> string option) list \<Rightarrow> ChessGame option" where
  "playLegal s [] = Some s"
| "playLegal s ((frm, to, promotionPiece) # rest) =
     (if offered s frm to then
        (case move s frm to promotionPiece of
           (Inr (Some r), s') \<Rightarrow> playLegal s' rest
         | _ \<Rightarrow> None)
      else None)"

abbreviation sq :: "int \<Rightarrow> int \<Rightarrow> Position" where
  "sq r c \<equiv> \<lparr>row = r, col = c\<rparr>"

text \<open>The FEN that the game page passes to the board component.\<close>

definition startFen :: string where
  "startFen = ''rnbqkbnr/pppppppp/8/8/8/8/PPPPPPPP/RNBQKBNR w KQkq - 0 1''"

definition startBoard :: "string list list" where
  "startBoard =
     [[''r'', ''n'', ''b'', ''q'', ''k'', ''b'', ''n'', ''r''],
      [''p'', ''p'', ''p'', ''p'', ''p'', ''p'', ''p'', ''p''],
      [''.'', ''.'', ''.'', ''.'', ''.'', ''.'', ''.'', ''.''],
      [''.'', ''.'', ''.'', ''.'', ''.'', ''.'', ''.'', ''.''],
      [''.'', ''.'', ''.'', ''.'', ''.'', ''.'', ''.'', ''.''],
      [''.'', ''.'', ''.'', ''.'', ''.'', ''.'', ''.'', ''.''],
      [''P'', ''P'', ''P'', ''P'', ''P'', ''P'', ''P'', ''P''],
      [''R'', ''N'', ''B'', ''Q'', ''K'', ''B'', ''N'', ''R'']]"

text \<open>The state that the constructor builds from \<open>startFen\<close>.\<close>

definition startPosition :: ChessGame where
  "startPosition =
     \<lparr>board = startBoard,
      lastMove = None, moveLog = [], redoStack = [],
      castlingRights = 0, history = [],
      halfMoveClock = 0, fullMoveNumber = 1,
      isCheck = False, checkKingPosition = None,
      isCheckmate = False, isStalemate = False, isDraw = False,
      gameOver = False, winner = None,
      heap = [[''K'', ''Q'', ''k'', ''q'']]\<rparr>"

section \<open>Notions used in the statements\<close>

text \<open>The square \<open>(r, c)\<close> lies inside the arrays of the board \<open>b\<close>.\<close>

definition inRange :: "string list list \<Rightarrow> int \<Rightarrow> int \<Rightarrow> bool" where
  "inRange b r c = (0 \<le> r \<and> r < int (length b) \<and> 0 \<le> c \<and> c < int (length (b ! nat r)))"

text \<open>The end-of-game fields of the cached status.\<close>

definition endStatus :: "ChessGame \<Rightarrow> bool \<times> bool \<times> bool \<times> bool \<times> Color option" where
  "endStatus s = (isCheckmate s, isStalemate s, isDraw s, gameOver s, winner s)"

section \<open>Positions and lines of play used below\<close>

text \<open>White pawn on a7, the square a8 free, the two kings in the corners of the first rank.\<close>

definition promotionFen :: string where
  "promotionFen = ''8/P7/8/8/8/8/8/k6K w - - 0 1''"

definition promotionGame :: ChessGame where
  "promotionGame = projr (newChessGame promotionFen)"

text \<open>Kings and pawns only, with all four castling rights in the FEN.\<close>

definition noRookFen :: string where
  "noRookFen = ''4k3/pppppppp/8/8/8/8/PPPPPPPP/4K3 w KQkq - 0 1''"

definition noRookGame :: ChessGame where
  "noRookGame = projr (newChessGame noRookFen)"

text \<open>Kings and rooks on their home squares with nothing between them.\<close>

definition castleFen :: string where
  "castleFen = ''r3k2r/pppppppp/8/8/8/8/PPPPPPPP/R3K2R w KQkq - 0 1''"

definition castleGame :: ChessGame where
  "castleGame = projr (newChessGame castleFen)"

text \<open>White to move is mated on the first rank by the queen on a1.\<close>

definition matedFen :: string where
  "matedFen = ''7k/8/8/8/8/8/5PPP/q5K1 w - - 0 1''"

definition matedGame :: ChessGame where
  "matedGame = projr (newChessGame matedFen)"

text \<open>1. e4 a6 2. e5 d6, after which the pawn on e5 can take the pawn on d6.\<close>

definition pawnCaptureLine :: "(Position \<times> Position \<times> string option) list" where
  "pawnCaptureLine =
     [(sq 6 4, sq 4 4, None), (sq 1 0, sq 2 0, None), (sq 4 4, sq 3 4, None), (sq 1 3, sq 2 3, None)]"

text \<open>1. Nh3 Nh6 2. Ng1 Ng8: both knights go out and come back.\<close>

definition knightCycle :: "(Position \<times> Position \<times> string option) list" where
  "knightCycle =
     [(sq 7 6, sq 5 7, None), (sq 0 6, sq 2 7, None), (sq 5 7, sq 7 6, None), (sq 2 7, sq 0 6, None)]"

text \<open>1. a4 b5 2. axb5 a6 3. bxa6 h6 4. a7 h5, after which the pawn on a7 can take on b8.\<close>

definition promotionLine :: "(Position \<times> Position \<times> string option) list" where
  "promotionLine =
     [(sq 6 0, sq 4 0, None), (sq 1 1, sq 3 1, None), (sq 4 0, sq 3 1, None), (sq 1 0, sq 2 0, None),
      (sq 3 1, sq 2 0, None), (sq 1 7, sq 2 7, None), (sq 2 0, sq 1 0, None), (sq 2 7, sq 3 7, None)]"

section \<open>Equations for evaluation\<close>

text \<open>
  The character tests on the bits of a character, and the two range tests on the
  first character of the piece.
\<close>

lemma isUpperChar_bits [code]:
  "isUpperChar (Char b0 b1 b2 b3 b4 b5 b6 b7) =
     (\<not> b7 \<and> b6 \<and> \<not> b5 \<and> (b0 \<or> b1 \<or> b2 \<or> b3 \<or> b4) \<and> \<not> (b4 \<and> b3 \<and> (b2 \<or> (b1 \<and> b0))))"
  by (cases b0; cases b1; cases b2; cases b3; cases b4; cases b5; cases b6; cases b7)
     (simp_all add: isUpperChar_def)

lemma isLowerChar_bits [code]:
  "isLowerChar (Char b0 b1 b2 b3 b4 b5 b6 b7) =
     (\<not> b7 \<and> b6 \<and> b5 \<and> (b0 \<or> b1 \<or> b2 \<or> b3 \<or> b4) \<and> \<not> (b4 \<and> b3 \<and> (b2 \<or> (b1 \<and> b0))))"
  by (cases b0; cases b1; cases b2; cases b3; cases b4; cases b5; cases b6; cases b7)
     (simp_all add: isLowerChar_def)

lemma geA_leZ_code [code]:
  "geA_leZ [] = False"
  "geA_leZ (c # rest) = (isUpperChar c \<and> (rest = [] \<or> c \<noteq> CHR ''Z''))"
proof -
  show "geA_leZ [] = False" by (simp add: geA_leZ_def)
  have a: "(of_char c :: nat) = 65 \<longleftrightarrow> c = CHR ''A''"
    using of_char_eq_iff[of c "CHR ''A''", where ?'a = nat] by simp
  have z: "(of_char c :: nat) = 90 \<longleftrightarrow> c = CHR ''Z''"
    using of_char_eq_iff[of c "CHR ''Z''", where ?'a = nat] by simp
  have e: "str_le rest [] = (rest = [])" by (cases rest) simp_all
  show "geA_leZ (c # rest) = (isUpperChar c \<and> (rest = [] \<or> c \<noteq> CHR ''Z''))"
    using a z by (auto simp: geA_leZ_def isUpperChar_def Let_def e)
qed

lemma gea_lez_code [code]:
  "gea_lez [] = False"
  "gea_lez (c # rest) = (isLowerChar c \<and> (rest = [] \<or> c \<noteq> CHR ''z''))"
proof -
  show "gea_lez [] = False" by (simp add: gea_lez_def)
  have a: "(of_char c :: nat) = 97 \<longleftrightarrow> c = CHR ''a''"
    using of_char_eq_iff[of c "CHR ''a''", where ?'a = nat] by simp
  have z: "(of_char c :: nat) = 122 \<longleftrightarrow> c = CHR ''z''"
    using of_char_eq_iff[of c "CHR ''z''", where ?'a = nat] by simp
  have e: "str_le rest [] = (rest = [])" by (cases rest) simp_all
  show "gea_lez (c # rest) = (isLowerChar c \<and> (rest = [] \<or> c \<noteq> CHR ''z''))"
    using a z by (auto simp: gea_lez_def isLowerChar_def Let_def e)
qed

section \<open>Reading and writing cells\<close>

lemma shape_setCell: "map length (setCell b r c v) = map length b"
  by (auto simp: setCell_def map_update list_update_same_conv)

lemma length_setCell: "length (setCell b r c v) = length b"
  by (simp add: setCell_def)

lemma length_row_setCell: "length (setCell b r c v ! i) = length (b ! i)"
  by (cases "i < length b") (auto simp: setCell_def nth_list_update)

lemma inRange_setCell: "inRange (setCell b r' c' v) r c = inRange b r c"
  by (simp add: inRange_def length_setCell length_row_setCell)

lemma setCell_out: "\<not> inRange b r c \<Longrightarrow> setCell b r c v = b"
  unfolding setCell_def inRange_def by presburger

lemma setCell_in: "inRange b r c \<Longrightarrow> setCell b r c v = b[nat r := (b ! nat r)[nat c := v]]"
  unfolding setCell_def inRange_def by presburger

lemma cell_setCell:
  "cell (setCell b r' c' v) r c = (if inRange b r' c' \<and> r = r' \<and> c = c' then v else cell b r c)"
proof (cases "inRange b r' c'")
  case False
  then show ?thesis by (simp add: setCell_out)
next
  case True
  note sc = setCell_in[OF True]
  show ?thesis
  proof (cases "0 \<le> r \<and> r < int (length b)")
    case False
    then show ?thesis using True by (auto simp: cell_def sc inRange_def)
  next
    case rin: True
    show ?thesis
    proof (cases "r = r'")
      case True
      with rin \<open>inRange b r' c'\<close> show ?thesis
        by (auto simp: cell_def sc inRange_def nth_list_update)
    next
      case False
      with rin \<open>inRange b r' c'\<close> have "nat r' \<noteq> nat r" by (auto simp: inRange_def)
      with rin False show ?thesis
        by (simp add: cell_def sc)
    qed
  qed
qed

lemma board_ext:
  assumes "map length b = map length b'" and "\<And>r c. cell b r c = cell b' r c"
  shows "b = b'"
proof (rule nth_equalityI)
  show len: "length b = length b'" using assms(1) by (metis length_map)
  fix i assume i: "i < length b"
  have li: "length (b ! i) = length (b' ! i)"
    using assms(1) i len by (metis nth_map)
  show "b ! i = b' ! i"
  proof (rule nth_equalityI)
    show "length (b ! i) = length (b' ! i)" by (rule li)
    fix j assume j: "j < length (b ! i)"
    have "cell b (int i) (int j) = cell b' (int i) (int j)" by (rule assms(2))
    then show "b ! i ! j = b' ! i ! j"
      using i j len li by (simp add: cell_def)
  qed
qed

lemma setCell_restore:
  "setCell (setCell (setCell (setCell b pr pc x) tr tc (cell b pr pc)) pr pc (cell b pr pc)) tr tc (cell b tr tc) = b"
proof (rule board_ext)
  show "map length (setCell (setCell (setCell (setCell b pr pc x) tr tc (cell b pr pc)) pr pc (cell b pr pc)) tr tc (cell b tr tc)) = map length b"
    by (simp only: shape_setCell)
next
  fix r c
  show "cell (setCell (setCell (setCell (setCell b pr pc x) tr tc (cell b pr pc)) pr pc (cell b pr pc)) tr tc (cell b tr tc)) r c = cell b r c"
    by (simp add: cell_setCell inRange_setCell)
qed

lemma wf_inRange: "wf_board b \<Longrightarrow> isInBounds r c \<Longrightarrow> inRange b r c"
  by (auto simp: wf_board_def isInBounds_def inRange_def list_all_length)

section \<open>The legality filter restores the board\<close>

text \<open>
  Every candidate is written into the board and taken back: after the four
  assignments of the callback the board is the one before them, so the state
  that leaves \<open>getValidMoves\<close> and \<open>getAllValidMoves\<close> is the state that entered.
\<close>

lemma filterLegal_state: "snd (filterLegal s pos (pieceAt s pos) ms) = s"
proof (induction ms)
  case Nil
  show ?case by simp
next
  case (Cons m ms)
  have restore: "s\<lparr>board := setCell (setCell (setCell (setCell (board s) (row pos) (col pos) ''.'')
        (row m) (col m) (pieceAt s pos)) (row pos) (col pos) (pieceAt s pos)) (row m) (col m) (pieceAt s m)\<rparr> = s"
    by (simp add: pieceAt_def setCell_restore)
  show ?case
    using Cons.IH by (simp add: Let_def split_beta restore)
qed

lemma getValidMoves_state: "snd (getValidMoves s pos forAttackCheck) = s"
  by (simp add: getValidMoves_def Let_def filterLegal_state)

lemma allValidMovesLoop_state: "snd (allValidMovesLoop s ps) = s"
proof (induction ps)
  case Nil
  show ?case by simp
next
  case (Cons p ps)
  obtain pc pos where p: "p = (pc, pos)" by (cases p)
  obtain ms s1 where g: "getValidMoves s pos False = (ms, s1)" by (cases "getValidMoves s pos False")
  have "s1 = s" using getValidMoves_state[of s pos False] g by simp
  then show ?case using Cons.IH g p by (simp add: split_beta)
qed

lemma getAllValidMoves_state: "snd (getAllValidMoves s kingColor) = s"
  by (simp add: getAllValidMoves_def Let_def allValidMovesLoop_state)

text \<open>
  \<open>getAllValidMoves(kingColor).length > 0\<close> holds when some piece of the colour has
  a move left by the filter; \<open>updateGameState\<close> with this test in place of the
  full list, the material test without the sort when more than four letters are
  on the board, and the repetition test on an empty history.
\<close>

lemma allValidMovesLoop_fst:
  "fst (allValidMovesLoop s ps) =
     concat (map (\<lambda>(pc, pos). map (\<lambda>to. (pos, to, pieceAt s pos)) (fst (getValidMoves s pos False))) ps)"
proof (induction ps)
  case Nil
  show ?case by simp
next
  case (Cons p ps)
  obtain pc pos where p: "p = (pc, pos)" by (cases p)
  have g: "snd (getValidMoves s pos False) = s" by (rule getValidMoves_state)
  show ?case using Cons.IH by (simp add: p split_beta g)
qed

lemma hasValidMoves_eq:
  "(length (fst (getAllValidMoves s kingColor)) > 0) =
     list_ex (\<lambda>(pc, pos). fst (getValidMoves s pos False) \<noteq> [])
       (getPieces s (if kingColor = W then White else Black))"
  by (auto simp: getAllValidMoves_def Let_def allValidMovesLoop_fst list_ex_iff split_beta)

lemma updateGameState_code [code]:
  "updateGameState s =
     (let turn = (if length (moveLog s) mod 2 = 0 then White else Black);
          kingColor = (if turn = White then W else B);
          s1 = s\<lparr>isCheck := isKingInCheck s kingColor\<rparr>;
          s2 = s1\<lparr>checkKingPosition := (if isCheck s1 then findKing s1 kingColor else None)\<rparr>;
          hasValidMoves = list_ex (\<lambda>(pc, pos). fst (getValidMoves s2 pos False) \<noteq> [])
                            (getPieces s2 (if kingColor = W then White else Black))
      in if isCheck s2 \<and> \<not> hasValidMoves then
           (Inr (), s2\<lparr>isCheckmate := True, gameOver := True,
                        winner := Some (if turn = White then Black else White)\<rparr>)
         else if \<not> isCheck s2 \<and> \<not> hasValidMoves then
           (Inr (), s2\<lparr>isStalemate := True, gameOver := True\<rparr>)
         else
           (case isInsufficientMaterial s2 of
              Inl e \<Rightarrow> (Inl e, s2)
            | Inr insufficient \<Rightarrow>
                if insufficient \<or> isThreefoldRepetition s2 \<or> halfMoveClock s2 \<ge> 100
                then (Inr (), s2\<lparr>isDraw := True, gameOver := True\<rparr>)
                else (Inr (), s2)))"
  unfolding updateGameState_def Let_def split_beta getAllValidMoves_state hasValidMoves_eq
  by (rule refl)



lemma length_concat_insertSorted: "length (concat (insertSorted x xs)) = length x + length (concat xs)"
  by (induction xs) auto

lemma length_concat_sortStrings: "length (concat (sortStrings xs)) = length (concat xs)"
  by (induction xs) (simp_all add: sortStrings_def length_concat_insertSorted)

lemma length_toLowerCase: "length (toLowerCase str) = length str"
  by (simp add: toLowerCase_def)

lemma length_concat_lower:
  "length (concat (map (\<lambda>(pc, pos). toLowerCase pc) ps)) = length (concat (map fst ps))"
  by (induction ps) (auto simp: length_toLowerCase)

lemma isInsufficientMaterial_code [code]:
  "isInsufficientMaterial s =
     (let pieces = getPieces s White @ getPieces s Black in
      if length (concat (map fst pieces)) > 4 then Inr False
      else
        (let pieceChars = concat (sortStrings (map (\<lambda>(pc, pos). toLowerCase pc) pieces))
         in if pieceChars = ''k'' then Inr True
            else if pieceChars = ''kn'' \<or> pieceChars = ''kkn'' then Inr True
            else if pieceChars = ''bk'' \<or> pieceChars = ''bkk'' then Inr True
            else if pieceChars = ''bbkk'' then
              (case filter (\<lambda>(pc, pos). toLowerCase pc = ''b'') pieces of
                 (pc0, p0) # (pc1, p1) # others \<Rightarrow>
                   Inr ((row p0 + col p0) mod 2 = (row p1 + col p1) mod 2)
               | _ \<Rightarrow> Inl TypeError)
            else Inr False))"
proof -
  let ?pieces = "getPieces s White @ getPieces s Black"
  let ?chars = "concat (sortStrings (map (\<lambda>(pc, pos). toLowerCase pc) ?pieces))"
  have len: "length ?chars = length (concat (map fst ?pieces))"
    by (simp only: length_concat_sortStrings length_concat_lower)
  show ?thesis
  proof (cases "length (concat (map fst ?pieces)) > 4")
    case False
    then show ?thesis by (simp add: isInsufficientMaterial_def Let_def)
  next
    case True
    with len have big: "length ?chars > 4" by simp
    have "?chars \<noteq> ''k''" "?chars \<noteq> ''kn''" "?chars \<noteq> ''kkn''" "?chars \<noteq> ''bk''"
      "?chars \<noteq> ''bkk''" "?chars \<noteq> ''bbkk''"
      using big by auto
    then have "isInsufficientMaterial s = Inr False"
      unfolding isInsufficientMaterial_def Let_def by simp
    with True show ?thesis by (simp add: Let_def)
  qed
qed

lemma isThreefoldRepetition_code [code]:
  "isThreefoldRepetition s =
     (if history s = [] then False
      else (let fen = boardToFen s;
                count = length (filter (\<lambda>(m, f). f = fen) (history s))
            in count \<ge> 2))"
  by (simp add: isThreefoldRepetition_def)

section \<open>Moving from an empty square or to a square off the board\<close>

text \<open>
  C7. For every game state with an 8 by 8 board and every call \<open>move(from, to)\<close> with
  \<open>from\<close> inside the board: when the from-square is empty or \<open>to\<close> is outside the
  board, \<open>move\<close> returns \<open>null\<close>, raises nothing and leaves every component of the
  state as it was.
\<close>

theorem move_from_empty_or_to_outside_is_noop:
  assumes wf: "wf_board (board s)"
    and inb: "isInBounds (row frm) (col frm)"
    and h: "pieceAt s frm = ''.'' \<or> \<not> isInBounds (row to) (col to)"
  shows "move s frm to promotionPiece = (Inr None, s)"
proof -
  have "inRange (board s) (row frm) (col frm)" using wf inb by (rule wf_inRange)
  then show ?thesis using h by (auto simp: move_def inRange_def Let_def)
qed

text \<open>
  The theorem at the starting position: a move from the empty square e4, and a
  move of the pawn on e2 to row 8.
\<close>

theorem move_from_empty_or_to_outside_is_noop_witness:
  "wf_board (board startPosition) \<and>
   isInBounds (row (sq 4 4)) (col (sq 4 4)) \<and> pieceAt startPosition (sq 4 4) = ''.'' \<and>
   move startPosition (sq 4 4) (sq 3 4) None = (Inr None, startPosition) \<and>
   isInBounds (row (sq 6 4)) (col (sq 6 4)) \<and> \<not> isInBounds (row (sq 8 4)) (col (sq 8 4)) \<and>
   move startPosition (sq 6 4) (sq 8 4) None = (Inr None, startPosition)"
proof -
  have wf: "wf_board (board startPosition)" by code_simp
  have i1: "isInBounds (row (sq 4 4)) (col (sq 4 4))" by code_simp
  have e1: "pieceAt startPosition (sq 4 4) = ''.''" by code_simp
  have i2: "isInBounds (row (sq 6 4)) (col (sq 6 4))" by code_simp
  have o2: "\<not> isInBounds (row (sq 8 4)) (col (sq 8 4))" by code_simp
  have m1: "move startPosition (sq 4 4) (sq 3 4) None = (Inr None, startPosition)"
    using e1 by (intro move_from_empty_or_to_outside_is_noop[OF wf i1]) blast
  have m2: "move startPosition (sq 6 4) (sq 8 4) None = (Inr None, startPosition)"
    using o2 by (intro move_from_empty_or_to_outside_is_noop[OF wf i2]) blast
  from wf i1 e1 m1 i2 o2 m2 show ?thesis by blast
qed

section \<open>The legal-move query is a pure probe\<close>

text \<open>
  C9. For every game state with an 8 by 8 board and every square of the board, a
  call \<open>getValidMoves(pos)\<close> with the legality filter leaves the whole state as it
  was: the board, the castling rights, the move log, the redo stack, the
  position history, \<open>lastMove\<close> and every cached status field.
\<close>

theorem getValidMoves_leaves_state_unchanged:
  assumes "wf_board (board s)" and "isInBounds (row pos) (col pos)"
  shows "snd (getValidMoves s pos False) = s"
  by (rule getValidMoves_state)

text \<open>The theorem for the pawn on e2 in the starting position.\<close>

theorem getValidMoves_leaves_state_unchanged_witness:
  "wf_board (board startPosition) \<and> isInBounds (row (sq 6 4)) (col (sq 6 4)) \<and>
   snd (getValidMoves startPosition (sq 6 4) False) = startPosition"
proof -
  have wf: "wf_board (board startPosition)" by code_simp
  have inb: "isInBounds (row (sq 6 4)) (col (sq 6 4))" by code_simp
  from wf inb getValidMoves_leaves_state_unchanged[OF wf inb] show ?thesis by blast
qed

section \<open>The end-of-game fields are never reset\<close>

lemma endStatus_updates:
  "endStatus (s\<lparr>board := b\<rparr>) = endStatus s"
  "endStatus (s\<lparr>heap := h\<rparr>) = endStatus s"
  "endStatus (s\<lparr>lastMove := l\<rparr>) = endStatus s"
  "endStatus (s\<lparr>moveLog := ml\<rparr>) = endStatus s"
  "endStatus (s\<lparr>redoStack := rs\<rparr>) = endStatus s"
  "endStatus (s\<lparr>castlingRights := cr\<rparr>) = endStatus s"
  by (simp_all add: endStatus_def)

lemma endStatus_if: "endStatus (if c then a else b) = (if c then endStatus a else endStatus b)"
  by simp

lemma endStatus_deleteRight: "endStatus (deleteRight x s) = endStatus s"
  by (simp add: deleteRight_def endStatus_updates)

lemma endStatus_castleRook: "endStatus (castleRook f t s) = endStatus s"
  by (simp add: castleRook_def Let_def endStatus_updates)

lemma endStatus_moveRights: "endStatus (moveRights pc ac f t s) = endStatus s"
  by (simp add: moveRights_def Let_def endStatus_deleteRight)

lemma endStatus_redoRights: "endStatus (redoRights pc ac f t s) = endStatus s"
  by (simp add: redoRights_def Let_def endStatus_deleteRight)

lemma endStatus_applyMove: "endStatus (fst (applyMove s f t p)) = endStatus s"
  by (simp add: applyMove_def Let_def endStatus_updates endStatus_if endStatus_castleRook
        endStatus_moveRights cong: if_cong)


lemma endStatus_undo: "endStatus (undo s) = endStatus s"
  by (simp add: undo_def Let_def endStatus_updates endStatus_if split: option.split cong: if_cong)

lemma endStatus_redo: "endStatus (redo s) = endStatus s"
  by (simp add: redo_def Let_def endStatus_updates endStatus_if endStatus_castleRook
        endStatus_redoRights cong: if_cong)

lemma updateGameState_flags:
  "(isCheckmate s \<longrightarrow> isCheckmate (snd (updateGameState s))) \<and>
   (isStalemate s \<longrightarrow> isStalemate (snd (updateGameState s))) \<and>
   (isDraw s \<longrightarrow> isDraw (snd (updateGameState s))) \<and>
   (gameOver s \<longrightarrow> gameOver (snd (updateGameState s))) \<and>
   (winner s \<noteq> None \<longrightarrow> winner (snd (updateGameState s)) \<noteq> None)"
  by (simp add: updateGameState_def Let_def split_beta getAllValidMoves_state
           split: sum.splits)

lemma move_state:
  "snd (move s frm to p) = s \<or>
   snd (move s frm to p) = snd (updateGameState (fst (applyMove s frm to p)))"
  by (simp add: move_def Let_def split_beta split: sum.splits)

text \<open>
  C10. For every state and every step \<open>move\<close>, \<open>undo\<close> or \<open>redo\<close>: each of
  \<open>isCheckmate\<close>, \<open>isStalemate\<close>, \<open>isDraw\<close> and \<open>gameOver\<close> that is true before the step
  is true after it, and a \<open>winner\<close> that is set before the step is set after it.
\<close>

theorem status_never_reset:
  assumes wf: "wf_board (board s)"
    and inb: "isInBounds (row frm) (col frm)"
    and step: "s' = snd (move s frm to p) \<or> s' = undo s \<or> s' = redo s"
  shows "(isCheckmate s \<longrightarrow> isCheckmate s') \<and>
         (isStalemate s \<longrightarrow> isStalemate s') \<and>
         (isDraw s \<longrightarrow> isDraw s') \<and>
         (gameOver s \<longrightarrow> gameOver s') \<and>
         (winner s \<noteq> None \<longrightarrow> winner s' \<noteq> None)"
proof -
  consider (same) "endStatus s' = endStatus s"
    | (upd) "s' = snd (updateGameState (fst (applyMove s frm to p)))"
    using step move_state[of s frm to p] endStatus_undo[of s] endStatus_redo[of s] by auto
  then show ?thesis
  proof cases
    case same
    then show ?thesis by (simp add: endStatus_def)
  next
    case upd
    let ?a = "fst (applyMove s frm to p)"
    have a: "endStatus ?a = endStatus s" by (rule endStatus_applyMove)
    show ?thesis
      using updateGameState_flags[of ?a] a unfolding upd endStatus_def by simp
  qed
qed

text \<open>
  The theorem for the mated position \<open>matedGame\<close> and the move h2-h3 made after
  the mate: the game stays over, with its winner.
\<close>

theorem status_never_reset_witness:
  "\<not> isl (newChessGame matedFen) \<and>
   wf_board (board matedGame) \<and> isInBounds (row (sq 6 7)) (col (sq 6 7)) \<and>
   isCheckmate matedGame \<and> gameOver matedGame \<and> winner matedGame = Some Black \<and>
   isCheckmate (snd (move matedGame (sq 6 7) (sq 5 7) None)) \<and>
   gameOver (snd (move matedGame (sq 6 7) (sq 5 7) None)) \<and>
   winner (snd (move matedGame (sq 6 7) (sq 5 7) None)) \<noteq> None"
proof -
  have ok: "\<not> isl (newChessGame matedFen)" by code_simp
  have wf: "wf_board (board matedGame)" by code_simp
  have inb: "isInBounds (row (sq 6 7)) (col (sq 6 7))" by code_simp
  have before: "isCheckmate matedGame \<and> gameOver matedGame \<and> winner matedGame = Some Black"
    by code_simp
  have "(isCheckmate matedGame \<longrightarrow> isCheckmate (snd (move matedGame (sq 6 7) (sq 5 7) None))) \<and>
        (isStalemate matedGame \<longrightarrow> isStalemate (snd (move matedGame (sq 6 7) (sq 5 7) None))) \<and>
        (isDraw matedGame \<longrightarrow> isDraw (snd (move matedGame (sq 6 7) (sq 5 7) None))) \<and>
        (gameOver matedGame \<longrightarrow> gameOver (snd (move matedGame (sq 6 7) (sq 5 7) None))) \<and>
        (winner matedGame \<noteq> None \<longrightarrow> winner (snd (move matedGame (sq 6 7) (sq 5 7) None)) \<noteq> None)"
    by (rule status_never_reset[OF wf inb]) blast
  with ok wf inb before show ?thesis by auto
qed

section \<open>Promotion\<close>

lemma board_updateGameState: "board (snd (updateGameState s)) = board s"
  by (simp add: updateGameState_def Let_def split_beta getAllValidMoves_state
           split: sum.splits)

lemma board_deleteRight: "board (deleteRight x s) = board s"
  by (simp add: deleteRight_def)

lemma board_moveRights: "board (moveRights pc ac f t s) = board s"
  by (simp add: moveRights_def Let_def board_deleteRight)

lemma move_applied:
  assumes "inRange (board s) (row frm) (col frm)" "pieceAt s frm \<noteq> ''.''"
    "isInBounds (row to) (col to)"
  shows "snd (move s frm to p) = snd (updateGameState (fst (applyMove s frm to p)))"
  using assms by (simp add: move_def inRange_def Let_def split_beta split: sum.splits)

lemma pawn_not_king: "''P'' \<noteq> ''K''" "''P'' \<noteq> ''k''" "''p'' \<noteq> ''K''" "''p'' \<noteq> ''k''"
  "''P'' \<noteq> ''.''" "''p'' \<noteq> ''.''" "''P'' \<noteq> ''p''"
  by simp_all

lemma board_applyMove_pawn:
  assumes pawn: "pieceAt s frm = ''P'' \<or> pieceAt s frm = ''p''"
  shows "board (fst (applyMove s frm to p)) =
     setCell (setCell
        (if (case lastMove s of None \<Rightarrow> False | Some lm \<Rightarrow> isEnpassantMove s frm to lm)
         then setCell (board s) (if pieceAt s frm = ''P'' then row to + 1 else row to - 1) (col to) ''.''
         else board s)
        (row to) (col to)
        (if (pieceAt s frm = ''P'' \<and> row to = 0) \<or> (pieceAt s frm = ''p'' \<and> row to = 7)
         then (let promoteTo = toLowerCase
                     (case p of None \<Rightarrow> ''q'' | Some x \<Rightarrow> if x = [] then ''q'' else x)
               in if pieceAt s frm = ''P'' then toUpperCase promoteTo else promoteTo)
         else pieceAt s frm))
       (row frm) (col frm) ''.''"
proof -
  let ?s0 = "s\<lparr>heap := heap s @ [rights s]\<rparr>"
  have pa: "pieceAt ?s0 x = pieceAt s x" for x by (simp add: pieceAt_def)
  have ep: "isEnpassantMove ?s0 f t lm = isEnpassantMove s f t lm" for f t lm
    by (simp add: isEnpassantMove_def pa)
  have nk: "\<not> (pieceAt s frm = ''K'' \<or> pieceAt s frm = ''k'')" using pawn by auto
  show ?thesis
    unfolding applyMove_def Let_def pa ep
    using pawn nk by (simp add: board_moveRights cong: if_cong)
qed

lemma cell_applyMove_pawn:
  assumes pawn: "pieceAt s frm = ''P'' \<or> pieceAt s frm = ''p''"
    and rng: "inRange (board s) (row to) (col to)"
    and ne: "row frm \<noteq> row to \<or> col frm \<noteq> col to"
  shows "cell (board (fst (applyMove s frm to p))) (row to) (col to) =
           (if (pieceAt s frm = ''P'' \<and> row to = 0) \<or> (pieceAt s frm = ''p'' \<and> row to = 7)
            then (let promoteTo = toLowerCase
                        (case p of None \<Rightarrow> ''q'' | Some x \<Rightarrow> if x = [] then ''q'' else x)
                  in if pieceAt s frm = ''P'' then toUpperCase promoteTo else promoteTo)
            else pieceAt s frm)"
proof -
  let ?b1 = "if (case lastMove s of None \<Rightarrow> False | Some lm \<Rightarrow> isEnpassantMove s frm to lm)
         then setCell (board s) (if pieceAt s frm = ''P'' then row to + 1 else row to - 1) (col to) ''.''
         else board s"
  have r1: "inRange ?b1 (row to) (col to)" using rng by (simp add: inRange_setCell)
  have n1: "\<not> (row to = row frm \<and> col to = col frm)" using ne by auto
  show ?thesis
    unfolding board_applyMove_pawn[OF pawn] cell_setCell
    using r1 n1 by (simp only: if_True if_False simp_thms)
qed

text \<open>
  C3, as the code has it. For every state with an 8 by 8 board, every move of a
  pawn between two different squares of the board that reaches the farthest rank
  (a white pawn to row 0, a black pawn to row 7) and every promotion choice that
  is absent or an ASCII string, \<open>move(from, to, promotionChoice)\<close> leaves on the
  destination the choice in lower case, put in upper case for a white pawn,
  where an absent or empty choice counts as \<open>"q"\<close>. A choice among q, r, b, n
  gives that piece in the moving colour and an absent or empty choice gives a
  queen; any other ASCII string is placed as it is given, not replaced by a
  queen.
\<close>

theorem promotion_places_choice:
  assumes wf: "wf_board (board s)"
    and inb: "isInBounds (row frm) (col frm)" "isInBounds (row to) (col to)"
    and ne: "frm \<noteq> to"
    and promo: "(pieceAt s frm = ''P'' \<and> row to = 0) \<or> (pieceAt s frm = ''p'' \<and> row to = 7)"
    and ascii: "isAscii (case promotionPiece of None \<Rightarrow> [] | Some x \<Rightarrow> x)"
  shows "pieceAt (snd (move s frm to promotionPiece)) to =
           (let promoteTo = toLowerCase
                  (case promotionPiece of None \<Rightarrow> ''q'' | Some x \<Rightarrow> if x = [] then ''q'' else x)
            in if pieceAt s frm = ''P'' then toUpperCase promoteTo else promoteTo)"
proof -
  have rf: "inRange (board s) (row frm) (col frm)" and rt: "inRange (board s) (row to) (col to)"
    using wf inb by (simp_all add: wf_inRange)
  have pawn: "pieceAt s frm = ''P'' \<or> pieceAt s frm = ''p''" using promo by blast
  then have nonempty: "pieceAt s frm \<noteq> ''.''" by auto
  have ne': "row frm \<noteq> row to \<or> col frm \<noteq> col to"
    using ne by (auto intro: Position.equality)
  have "board (snd (move s frm to promotionPiece)) = board (fst (applyMove s frm to promotionPiece))"
    by (simp only: move_applied[OF rf nonempty inb(2)] board_updateGameState)
  then have "pieceAt (snd (move s frm to promotionPiece)) to =
      cell (board (fst (applyMove s frm to promotionPiece))) (row to) (col to)"
    by (simp add: pieceAt_def)
  also have "\<dots> = (let promoteTo = toLowerCase
                  (case promotionPiece of None \<Rightarrow> ''q'' | Some x \<Rightarrow> if x = [] then ''q'' else x)
            in if pieceAt s frm = ''P'' then toUpperCase promoteTo else promoteTo)"
    using promo by (simp only: cell_applyMove_pawn[OF pawn rt ne'] if_True)
  finally show ?thesis .
qed

text \<open>
  C3 as stated fails: in \<open>promotionGame\<close> the pawn on a7 may go to a8, and with the
  choice \<open>"k"\<close> the square a8 then holds a white king, not a queen.
\<close>

theorem promotion_to_king_counterexample:
  "\<not> isl (newChessGame promotionFen) \<and>
   pieceAt promotionGame (sq 1 0) = ''P'' \<and>
   offered promotionGame (sq 1 0) (sq 0 0) \<and>
   pieceAt (snd (move promotionGame (sq 1 0) (sq 0 0) (Some ''k''))) (sq 0 0) = ''K''"
  by code_simp

text \<open>The theorem in \<open>promotionGame\<close> for the choice \<open>"n"\<close>: a white knight stands on a8.\<close>

theorem promotion_places_choice_witness:
  "wf_board (board promotionGame) \<and>
   isInBounds (row (sq 1 0)) (col (sq 1 0)) \<and> isInBounds (row (sq 0 0)) (col (sq 0 0)) \<and>
   sq 1 0 \<noteq> sq 0 0 \<and> pieceAt promotionGame (sq 1 0) = ''P'' \<and> row (sq 0 0) = 0 \<and>
   isAscii ''n'' \<and>
   pieceAt (snd (move promotionGame (sq 1 0) (sq 0 0) (Some ''n''))) (sq 0 0) = ''N''"
proof -
  have wf: "wf_board (board promotionGame)" by code_simp
  have i1: "isInBounds (row (sq 1 0)) (col (sq 1 0))" by code_simp
  have i2: "isInBounds (row (sq 0 0)) (col (sq 0 0))" by code_simp
  have ne: "sq 1 0 \<noteq> sq 0 0" by simp
  have pawn: "pieceAt promotionGame (sq 1 0) = ''P''" by code_simp
  have r0: "row (sq 0 0) = 0" by simp
  have promo: "(pieceAt promotionGame (sq 1 0) = ''P'' \<and> row (sq 0 0) = 0) \<or>
               (pieceAt promotionGame (sq 1 0) = ''p'' \<and> row (sq 0 0) = 7)"
    using pawn r0 by blast
  have asc: "isAscii ''n''" by code_simp
  have asc': "isAscii (case Some ''n'' of None \<Rightarrow> [] | Some x \<Rightarrow> x)"
    using asc by simp
  have val: "toUpperCase (toLowerCase ''n'') = ''N''" by code_simp
  have "pieceAt (snd (move promotionGame (sq 1 0) (sq 0 0) (Some ''n''))) (sq 0 0) = ''N''"
    using promotion_places_choice[OF wf i1 i2 ne promo asc'] pawn val
    by (simp add: Let_def)
  with wf i1 i2 ne pawn r0 asc show ?thesis by blast
qed

section \<open>Castling targets\<close>

lemma filterLegal_subset: "set (fst (filterLegal s pos pc ms)) \<subseteq> set ms"
proof (induction ms arbitrary: s)
  case Nil
  show ?case by simp
next
  case (Cons m ms)
  let ?s4 = "s\<lparr>board := setCell (setCell (setCell (setCell (board s) (row pos) (col pos) ''.'')
        (row m) (col m) pc) (row pos) (col pos) pc) (row m) (col m) (pieceAt s m)\<rparr>"
  have "set (fst (filterLegal ?s4 pos pc ms)) \<subseteq> set ms" by (rule Cons.IH)
  then show ?case by (auto simp: Let_def split_beta)
qed

lemma getValidMoves_subset: "set (fst (getValidMoves s pos fa)) \<subseteq> set (pieceMoves s pos)"
  using filterLegal_subset[of s pos "pieceAt s pos" "pieceMoves s pos"]
  by (simp add: getValidMoves_def Let_def)

lemma leaping_king_col:
  "m \<in> set (getLeapingMoves s pos kingOffsets) \<Longrightarrow> \<bar>col m - col pos\<bar> \<le> 1"
  by (auto simp: getLeapingMoves_def kingOffsets_def Let_def split: if_splits)

lemma king_is_white: "isWhitePiece ''K''" "\<not> isWhitePiece ''k''"
  by (simp_all add: isWhitePiece_def isUpperChar_def)

lemma king_dispatch: "pieceAt s pos = ''K'' \<or> pieceAt s pos = ''k'' \<Longrightarrow> pieceMoves s pos = getValidKingMoves s pos"
  by (auto simp: pieceMoves_def Let_def)

text \<open>
  C6, as the code has it. For every state with an 8 by 8 board, when
  \<open>getValidMoves\<close> on a square holding a king returns a destination two columns
  from the king, then the king stands on its home square, the destination is on
  the same row, the rights flag of that side is present, every square between
  king and rook corner is empty, and neither the king's square nor the squares
  the king passes through (the destination included) are attacked by the
  opponent. The rook itself is not looked at: its presence is carried by the
  rights flag alone.
\<close>

theorem castling_target_conditions:
  assumes wf: "wf_board (board s)"
    and inb: "isInBounds (row pos) (col pos)"
    and king: "pieceAt s pos = ''K'' \<or> pieceAt s pos = ''k''"
    and mem: "to \<in> set (fst (getValidMoves s pos False))"
    and two: "\<bar>col to - col pos\<bar> = 2"
  shows "(let isWhite = (pieceAt s pos = ''K'');
              kingRow = (if isWhite then 7 else 0);
              opponentColor = (if isWhite then Black else White)
          in row pos = kingRow \<and> col pos = 4 \<and> row to = kingRow \<and>
             \<not> isSquareAttacked s pos opponentColor \<and>
             ((col to = 6 \<and>
               (if isWhite then ''K'' else ''k'') \<in> set (rights s) \<and>
               cell (board s) kingRow 5 = ''.'' \<and> cell (board s) kingRow 6 = ''.'' \<and>
               \<not> isSquareAttacked s (sq kingRow 5) opponentColor \<and>
               \<not> isSquareAttacked s (sq kingRow 6) opponentColor) \<or>
              (col to = 2 \<and>
               (if isWhite then ''Q'' else ''q'') \<in> set (rights s) \<and>
               cell (board s) kingRow 1 = ''.'' \<and> cell (board s) kingRow 2 = ''.'' \<and>
               cell (board s) kingRow 3 = ''.'' \<and>
               \<not> isSquareAttacked s (sq kingRow 2) opponentColor \<and>
               \<not> isSquareAttacked s (sq kingRow 3) opponentColor)))"
proof -
  have cand: "to \<in> set (getValidKingMoves s pos)"
    using mem getValidMoves_subset[of s pos False] king_dispatch[OF king] by auto
  have notleap: "to \<notin> set (getLeapingMoves s pos kingOffsets)"
    using leaping_king_col[of to s pos] two by auto
  from king show ?thesis
  proof
    assume k: "pieceAt s pos = ''K''"
    show ?thesis
      using cand notleap
      by (auto simp: getValidKingMoves_def Let_def k king_is_white split: if_splits)
  next
    assume k: "pieceAt s pos = ''k''"
    show ?thesis
      using cand notleap
      by (auto simp: getValidKingMoves_def Let_def k king_is_white split: if_splits)
  qed
qed

text \<open>
  C6 as stated fails: \<open>noRookGame\<close> has the right \<open>K\<close> and no rook on h1, and g1 is
  among the moves of the king on e1.
\<close>

theorem castling_without_rook_counterexample:
  "\<not> isl (newChessGame noRookFen) \<and>
   pieceAt noRookGame (sq 7 4) = ''K'' \<and>
   sq 7 6 \<in> set (fst (getValidMoves noRookGame (sq 7 4) False)) \<and>
   pieceAt noRookGame (sq 7 7) = ''.''"
  by code_simp

text \<open>The theorem for the white king of \<open>castleGame\<close> and the destination g1.\<close>

theorem castling_target_conditions_witness:
  "wf_board (board castleGame) \<and> isInBounds (row (sq 7 4)) (col (sq 7 4)) \<and>
   pieceAt castleGame (sq 7 4) = ''K'' \<and>
   sq 7 6 \<in> set (fst (getValidMoves castleGame (sq 7 4) False)) \<and>
   \<bar>col (sq 7 6) - col (sq 7 4)\<bar> = 2 \<and>
   ''K'' \<in> set (rights castleGame) \<and>
   cell (board castleGame) 7 5 = ''.'' \<and> cell (board castleGame) 7 6 = ''.'' \<and>
   \<not> isSquareAttacked castleGame (sq 7 4) Black \<and>
   \<not> isSquareAttacked castleGame (sq 7 5) Black \<and>
   \<not> isSquareAttacked castleGame (sq 7 6) Black"
proof -
  have wf: "wf_board (board castleGame)" by code_simp
  have inb: "isInBounds (row (sq 7 4)) (col (sq 7 4))" by code_simp
  have k: "pieceAt castleGame (sq 7 4) = ''K''" by code_simp
  have king: "pieceAt castleGame (sq 7 4) = ''K'' \<or> pieceAt castleGame (sq 7 4) = ''k''"
    using k by blast
  have mem: "sq 7 6 \<in> set (fst (getValidMoves castleGame (sq 7 4) False))" by code_simp
  have two: "\<bar>col (sq 7 6) - col (sq 7 4)\<bar> = 2" by simp
  have "''K'' \<in> set (rights castleGame) \<and>
        cell (board castleGame) 7 5 = ''.'' \<and> cell (board castleGame) 7 6 = ''.'' \<and>
        \<not> isSquareAttacked castleGame (sq 7 4) Black \<and>
        \<not> isSquareAttacked castleGame (sq 7 5) Black \<and>
        \<not> isSquareAttacked castleGame (sq 7 6) Black"
    using castling_target_conditions[OF wf inb king mem two] by (simp add: Let_def k)
  with wf inb k mem two show ?thesis by blast
qed

section \<open>The starting position\<close>

text \<open>
  C8. The constructor builds \<open>startPosition\<close> from the standard starting FEN, and there
  the lengths of \<open>getValidMoves\<close> over the squares holding a white piece add up to 20.
\<close>

theorem start_position_has_20_moves:
  "newChessGame startFen = Inr startPosition \<and>
   sum_list (map (\<lambda>(piece, pos). length (fst (getValidMoves startPosition pos False)))
               (getPieces startPosition White)) = 20"
  by code_simp

section \<open>Where the code departs from the specification\<close>

text \<open>
  C5. The \<open>captured\<close> field of the result is \<open>!!actualCaptured\<close>, and the content
  \<open>"."\<close> of an empty square is a non-empty string: the first move 1. e4, to an empty
  square and with no move before it, reports a capture.
\<close>

theorem quiet_move_reports_capture:
  "pieceAt startPosition (sq 4 4) = ''.'' \<and> lastMove startPosition = None \<and>
   fst (move startPosition (sq 6 4) (sq 4 4) None) = Inr (Some \<lparr>captured = True, castling = False\<rparr>)"
  by code_simp

text \<open>
  C1. After 1. e4 a6 2. e5 d6 the capture 3. exd6 is offered, and it is no en
  passant capture: the move before it is the single step of the pawn from d7 to
  d6. \<open>undo\<close> tests \<open>this.board[to.row][to.col] === '.'\<close> after it has cleared that
  very square, so the capture by a white pawn from row 3 to row 2 is taken for an
  en passant capture: the black pawn comes back on d5 instead of d6, and the
  board after \<open>move\<close> and \<open>undo\<close> is not the board before.
\<close>

theorem undo_misplaces_pawn_capture:
  "case playLegal startPosition pawnCaptureLine of
     None \<Rightarrow> False
   | Some g \<Rightarrow>
       offered g (sq 3 4) (sq 2 3) \<and>
       map_option mv_piece (lastMove g) = Some ''p'' \<and>
       map_option mv_from (lastMove g) = Some (sq 1 3) \<and>
       map_option mv_to (lastMove g) = Some (sq 2 3) \<and>
       pieceAt g (sq 2 3) = ''p'' \<and> pieceAt g (sq 3 3) = ''.'' \<and>
       pieceAt (undo (snd (move g (sq 3 4) (sq 2 3) None))) (sq 2 3) = ''.'' \<and>
       pieceAt (undo (snd (move g (sq 3 4) (sq 2 3) None))) (sq 3 3) = ''p'' \<and>
       board (undo (snd (move g (sq 3 4) (sq 2 3) None))) \<noteq> board g"
  by code_simp

text \<open>
  C2. Nothing ever appends to \<open>history\<close>. After three rounds of 1. Nh3 Nh6 2. Ng1 Ng8
  the starting layout is on the board for the fourth time, the third time as the
  result of a move; the history is empty, the repetition test is false and the
  game is not drawn.
\<close>

theorem repetition_never_recorded:
  "case playLegal startPosition (knightCycle @ knightCycle @ knightCycle) of
     None \<Rightarrow> False
   | Some g \<Rightarrow>
       board g = startBoard \<and> length (moveLog g) = 12 \<and>
       history g = [] \<and> \<not> isThreefoldRepetition g \<and> \<not> isDraw g \<and> \<not> gameOver g"
  by code_simp

text \<open>
  C4. After 1. a4 b5 2. axb5 a6 3. bxa6 h6 4. a7 h5 the capture 5. axb8 with the
  choice \<open>"q"\<close> puts a white queen on b8. The \<open>Move\<close> keeps the pawn as its piece and
  not the promoted one, and \<open>redo\<close> writes \<open>move.piece\<close>: after \<open>undo\<close> and \<open>redo\<close> a
  white pawn stands on b8.
\<close>

theorem redo_places_pawn_after_promotion:
  "case playLegal startPosition promotionLine of
     None \<Rightarrow> False
   | Some g \<Rightarrow>
       offered g (sq 1 0) (sq 0 1) \<and>
       pieceAt (snd (move g (sq 1 0) (sq 0 1) (Some ''q''))) (sq 0 1) = ''Q'' \<and>
       pieceAt (redo (undo (snd (move g (sq 1 0) (sq 0 1) (Some ''q''))))) (sq 0 1) = ''P'' \<and>
       board (redo (undo (snd (move g (sq 1 0) (sq 0 1) (Some ''q''))))) \<noteq>
         board (snd (move g (sq 1 0) (sq 0 1) (Some ''q'')))"
  by code_simp

end
